theory Spec2Isabelle
  imports
    Main
    "HOL-Library.Word"
    "HOL-Library.Multiset"
    "HOL-Library.Char_ord"
    "HOL-Library.List_Lexorder"
begin

section \<open>Found subjects (package developmentmembership)\<close>

text \<open>
  \<open>core.ObjectAndRelation\<close>: the triple naming a relation on an object. Go strings are
  byte sequences, as \<open>string\<close> is here.
\<close>

record ObjectAndRelation =
  Namespace :: string
  ObjectId :: string
  Relation :: string

text \<open>
  Modelled from the spec: the constant \<open>tuple.PublicWildcard\<close> is declared outside the
  source files at hand; the spec fixes the reserved wildcard object id as \<open>*\<close>.
\<close>

definition PublicWildcard :: string where
  "PublicWildcard = ''*''"

text \<open>
  Modelled from the spec: \<open>tuple.StringONR\<close> is declared outside the source files at
  hand; the spec renders an ONR as \<open>namespace:objectId#relation\<close>.
\<close>

definition StringONR :: "ObjectAndRelation \<Rightarrow> string" where
  "StringONR onr = Namespace onr @ '':'' @ ObjectId onr @ ''#'' @ Relation onr"

text \<open>
  Modelled from the spec: \<open>v1.CaveatExpression\<close> is declared outside the source files
  at hand; the spec describes it as a boolean formula over named caveats that this code
  never evaluates. A nil pointer (an unconditional finding) is \<open>None\<close>.
\<close>

datatype CaveatExpression =
    CaveatLeaf string
  | CaveatOr CaveatExpression CaveatExpression
  | CaveatAnd CaveatExpression CaveatExpression
  | CaveatNot CaveatExpression

text \<open>
  The struct \<open>FoundSubject\<close>: its four fields in the order of the source. The
  \<open>relationships\<close> field is a \<open>tuple.ONRSet\<close>, a set of ONRs.
\<close>

datatype FoundSubject =
  FoundSubject
    (subject: ObjectAndRelation)
    (excludedSubjects: "FoundSubject list")
    (caveatExpression: "CaveatExpression option")
    (relationships: "ObjectAndRelation set")

text \<open>A Go panic carries its message; a function that may panic returns \<open>panic + 'a\<close>.\<close>

datatype panic = Panic string

definition NewFoundSubject :: "ObjectAndRelation \<Rightarrow> ObjectAndRelation list \<Rightarrow> FoundSubject" where
  "NewFoundSubject subj resources = FoundSubject subj [] None (set resources)"

definition GetSubjectId :: "FoundSubject \<Rightarrow> string" where
  "GetSubjectId fs = ObjectId (subject fs)"

definition GetCaveatExpression :: "FoundSubject \<Rightarrow> CaveatExpression option" where
  "GetCaveatExpression fs = caveatExpression fs"

definition GetExcludedSubjects :: "FoundSubject \<Rightarrow> FoundSubject list" where
  "GetExcludedSubjects fs = excludedSubjects fs"

definition Subject :: "FoundSubject \<Rightarrow> ObjectAndRelation" where
  "Subject fs = subject fs"

definition WildcardType :: "FoundSubject \<Rightarrow> string \<times> bool" where
  "WildcardType fs =
     (if ObjectId (subject fs) = PublicWildcard then (Namespace (subject fs), True)
      else ('''', False))"

text \<open>
  The loop of \<open>ExcludedSubjectsFromWildcard\<close>: the accumulator is the slice being
  appended to; the first excluded entry with a caveat expression panics.
\<close>

fun excludedSubjectsLoop ::
  "FoundSubject list \<Rightarrow> ObjectAndRelation list \<Rightarrow> panic + ObjectAndRelation list" where
  "excludedSubjectsLoop [] acc = Inr acc"
| "excludedSubjectsLoop (excludedSubject # rest) acc =
     (if caveatExpression excludedSubject \<noteq> None then Inl (Panic ''not yet supported'')
      else excludedSubjectsLoop rest (acc @ [subject excludedSubject]))"

definition ExcludedSubjectsFromWildcard ::
  "FoundSubject \<Rightarrow> panic + (ObjectAndRelation list \<times> bool)" where
  "ExcludedSubjectsFromWildcard fs =
     (if ObjectId (subject fs) = PublicWildcard then
        (case excludedSubjectsLoop (excludedSubjects fs) [] of
           Inl p \<Rightarrow> Inl p
         | Inr excluded \<Rightarrow> Inr (excluded, True))
      else Inr ([], False))"

text \<open>\<open>strings.Join\<close>: the elements separated by \<open>sep\<close>.\<close>

fun Join :: "string list \<Rightarrow> string \<Rightarrow> string" where
  "Join [] sep = ''''"
| "Join [x] sep = x"
| "Join (x # y # rest) sep = x @ sep @ Join (y # rest) sep"

text \<open>
  \<open>ToValidationString\<close>. \<open>sort.Strings\<close> orders strings byte by byte, which is the
  lexicographic order of \<open>char list\<close>; \<open>fmt.Sprintf("%s - {%s}", ...)\<close> is written out
  as concatenation.
\<close>

definition ToValidationString :: "FoundSubject \<Rightarrow> panic + string" where
  "ToValidationString fs =
     (if caveatExpression fs \<noteq> None then
        Inl (Panic ''conditional found subjects not yet supported'')
      else
        let onrString = StringONR (Subject fs) in
        case ExcludedSubjectsFromWildcard fs of
          Inl p \<Rightarrow> Inl p
        | Inr (excluded, isWildcard) \<Rightarrow>
            if isWildcard \<and> length excluded > 0 then
              let excludedONRStrings = map StringONR excluded in
              Inr (onrString @ '' - {'' @ Join (sort excludedONRStrings) '', '' @ ''}'')
            else Inr onrString)"

section \<open>The subject tracking set\<close>

text \<open>
  Modelled from the spec: the type \<open>TrackingSubjectSet\<close> with \<open>Add\<close>, \<open>Get\<close> and
  \<open>ToSlice\<close> is outside the source files at hand. The spec: a collection keyed by
  subject identity (namespace, object id and relation of the \<open>subject\<close> field, wildcard
  included), which merges an inserted finding into the entry of the same key and
  enumerates its entries in a fixed order. The object id of the key is read with
  \<open>GetSubjectId\<close>, which the source declares for this purpose.
\<close>

type_synonym subject_key = "string \<times> string \<times> string"

type_synonym TrackingSubjectSet = "(subject_key \<times> FoundSubject) list"

definition keyOfONR :: "ObjectAndRelation \<Rightarrow> subject_key" where
  "keyOfONR onr = (Namespace onr, ObjectId onr, Relation onr)"

definition keyOf :: "FoundSubject \<Rightarrow> subject_key" where
  "keyOf fs = (Namespace (subject fs), GetSubjectId fs, Relation (subject fs))"

text \<open>
  Modelled from the spec: the merge of two findings of one subject. Relationships: the
  union. Caveat expression: the logical OR of the two, nil (unconditional) if either is
  nil. Excluded subjects: the intersection of the two exclusion sets by subject identity.
\<close>

definition caveatOr ::
  "CaveatExpression option \<Rightarrow> CaveatExpression option \<Rightarrow> CaveatExpression option" where
  "caveatOr a b =
     (case a of
        None \<Rightarrow> None
      | Some x \<Rightarrow> (case b of None \<Rightarrow> None | Some y \<Rightarrow> Some (CaveatOr x y)))"

definition intersectExclusions :: "FoundSubject list \<Rightarrow> FoundSubject list \<Rightarrow> FoundSubject list" where
  "intersectExclusions xs ys = filter (\<lambda>x. keyOf x \<in> set (map keyOf ys)) xs"

definition mergeFoundSubjects :: "FoundSubject \<Rightarrow> FoundSubject \<Rightarrow> FoundSubject" where
  "mergeFoundSubjects existing added =
     FoundSubject (subject existing)
       (intersectExclusions (excludedSubjects existing) (excludedSubjects added))
       (caveatOr (caveatExpression existing) (caveatExpression added))
       (relationships existing \<union> relationships added)"

definition NewTrackingSubjectSet :: TrackingSubjectSet where
  "NewTrackingSubjectSet = []"

definition tssGet :: "TrackingSubjectSet \<Rightarrow> ObjectAndRelation \<Rightarrow> FoundSubject option" where
  "tssGet tss onr = map_of tss (keyOfONR onr)"

definition tssAdd :: "TrackingSubjectSet \<Rightarrow> FoundSubject \<Rightarrow> TrackingSubjectSet" where
  "tssAdd tss fs =
     (case map_of tss (keyOf fs) of
        None \<Rightarrow> tss @ [(keyOf fs, fs)]
      | Some existing \<Rightarrow>
          map (\<lambda>(k, v). if k = keyOf fs then (k, mergeFoundSubjects v fs) else (k, v)) tss)"

definition tssToSlice :: "TrackingSubjectSet \<Rightarrow> FoundSubject list" where
  "tssToSlice tss = map snd tss"

text \<open>The struct \<open>FoundSubjects\<close> of the source and its two methods.\<close>

datatype FoundSubjects = FoundSubjects (subjects: TrackingSubjectSet)

definition ListFound :: "FoundSubjects \<Rightarrow> FoundSubject list" where
  "ListFound fs = tssToSlice (subjects fs)"

definition LookupSubject :: "FoundSubjects \<Rightarrow> ObjectAndRelation \<Rightarrow> FoundSubject option" where
  "LookupSubject fs subj = tssGet (subjects fs) subj"



section \<open>Errors (package development)\<close>

text \<open>
  Modelled from the spec: the enumerations \<open>DeveloperError_Source\<close> and
  \<open>DeveloperError_Kind\<close> are generated from a protocol file outside the source files at
  hand; the spec lists the members used here.
\<close>

datatype DeveloperError_Source = DeveloperError_SCHEMA | DeveloperError_RELATIONSHIP

datatype DeveloperError_Kind =
    DeveloperError_PARSE_ERROR
  | DeveloperError_SCHEMA_ISSUE
  | DeveloperError_UNKNOWN_OBJECT_TYPE
  | DeveloperError_UNKNOWN_RELATION
  | DeveloperError_MAXIMUM_RECURSION

text \<open>\<open>devinterface.DeveloperError\<close>; \<open>Line\<close> and \<open>Column\<close> are \<open>uint32\<close>.\<close>

record DeveloperError =
  Message :: string
  Line :: "32 word"
  Column :: "32 word"
  Source :: DeveloperError_Source
  Kind :: DeveloperError_Kind
  Context :: string

text \<open>
  The error types and sentinels that the classifier tells apart with \<open>errors.Is\<close> and
  \<open>errors.As\<close>, \<open>StatusError\<close> for what \<open>status.Errorf\<close> builds, and \<open>OtherError\<close>
  for every other type.
\<close>

datatype error_type =
    ErrMaxDepth
  | UnknownNamespaceError
  | UnknownRelationError
  | invalidRelationError
  | ErrRequestCanceled
  | ErrInvalidArgument
  | ErrInvalidRevision
  | ErrRelationMissingTypeInfo
  | ErrAlwaysFail
  | StatusError
  | OtherError

text \<open>\<open>spiceerrors.ErrorWithSource\<close>: the source position an error may carry (\<open>uint64\<close>).\<close>

record ErrorWithSource =
  SourceCodeString :: string
  LineNumber :: "64 word"
  ColumnPosition :: "64 word"

datatype codes = Canceled | InvalidArgument | OutOfRange | FailedPrecondition | Internal

text \<open>
  A non-nil Go \<open>error\<close> value: the text of \<open>Error()\<close>, the types found along its
  \<open>Unwrap\<close> chain (outermost first), the source position when an \<open>ErrorWithSource\<close> is
  in the chain, and the gRPC code when it is a status error. The interface value \<open>nil\<close>
  is \<open>None\<close> of \<open>go_error option\<close>.
\<close>

record go_error =
  errorString :: string
  chain :: "error_type list"
  withSource :: "ErrorWithSource option"
  grpcCode :: "codes option"

text \<open>\<open>errors.Is\<close> against a sentinel and \<open>errors.As\<close> against a type walk the chain.\<close>

definition errorsAs :: "go_error option \<Rightarrow> error_type \<Rightarrow> bool" where
  "errorsAs err t = (case err of None \<Rightarrow> False | Some e \<Rightarrow> t \<in> set (chain e))"

definition errorsIs :: "go_error option \<Rightarrow> error_type \<Rightarrow> bool" where
  "errorsIs err t = errorsAs err t"

definition AsErrorWithSource :: "go_error \<Rightarrow> ErrorWithSource option" where
  "AsErrorWithSource err = withSource err"

text \<open>
  \<open>status.Errorf(code, format, err)\<close>: a fresh status error with the formatted
  description; the verb \<open>%s\<close> copies the text of \<open>err\<close> and does not wrap it.
\<close>

definition statusErrorf :: "codes \<Rightarrow> string \<Rightarrow> go_error" where
  "statusErrorf c desc =
     \<lparr>errorString = desc, chain = [StatusError], withSource = None, grpcCode = Some c\<rparr>"

text \<open>
  What the code does besides returning: a line written to the log, and the release of
  the two handles. A function with effects returns them in the order they happen.
\<close>

datatype effect =
    LogErr "go_error option" string
  | DispatcherClosed
  | DatastoreClosed

definition rewriteACLError :: "go_error option \<Rightarrow> go_error option \<times> effect list" where
  "rewriteACLError err =
     (case err of
        None \<Rightarrow> (None, [LogErr None ''unexpected graph error in devcontext''])
      | Some e \<Rightarrow>
          if errorsAs err UnknownNamespaceError \<or> errorsAs err UnknownRelationError
             \<or> errorsAs err ErrRequestCanceled then
            (Some (statusErrorf Canceled (''request canceled: '' @ errorString e)), [])
          else if errorsAs err ErrInvalidArgument then
            (Some (statusErrorf InvalidArgument (errorString e)), [])
          else if errorsAs err ErrInvalidRevision then
            (Some (statusErrorf OutOfRange (''invalid zookie: '' @ errorString e)), [])
          else if errorsAs err ErrRelationMissingTypeInfo then
            (Some (statusErrorf FailedPrecondition (''failed precondition: '' @ errorString e)), [])
          else if errorsAs err ErrAlwaysFail then
            (Some (statusErrorf Internal (''internal error: '' @ errorString e)),
             [LogErr err ''internal graph error in devcontext''])
          else if errorsAs err invalidRelationError then
            (Some (statusErrorf InvalidArgument (errorString e)), [])
          else (err, [LogErr err ''unexpected graph error in devcontext'']))"

definition distinguishGraphError ::
  "go_error option \<Rightarrow> DeveloperError_Source \<Rightarrow> 32 word \<Rightarrow> 32 word \<Rightarrow> string
   \<Rightarrow> DeveloperError option \<times> go_error option \<times> effect list" where
  "distinguishGraphError dispatchError source line column context =
     (case dispatchError of
        None \<Rightarrow> (let (werr, effs) = rewriteACLError dispatchError in (None, werr, effs))
      | Some e \<Rightarrow>
          if errorsIs dispatchError ErrMaxDepth then
            (Some \<lparr>Message = errorString e, Line = line, Column = column, Source = source,
                   Kind = DeveloperError_MAXIMUM_RECURSION, Context = context\<rparr>, None, [])
          else if errorsAs dispatchError UnknownNamespaceError then
            (Some \<lparr>Message = errorString e, Line = line, Column = column, Source = source,
                   Kind = DeveloperError_UNKNOWN_OBJECT_TYPE, Context = context\<rparr>, None, [])
          else if errorsAs dispatchError UnknownRelationError then
            (Some \<lparr>Message = errorString e, Line = line, Column = column, Source = source,
                   Kind = DeveloperError_UNKNOWN_RELATION, Context = context\<rparr>, None, [])
          else if errorsAs dispatchError invalidRelationError then
            (Some \<lparr>Message = errorString e, Line = line, Column = column, Source = source,
                   Kind = DeveloperError_UNKNOWN_RELATION, Context = context\<rparr>, None, [])
          else (let (werr, effs) = rewriteACLError dispatchError in (None, werr, effs)))"

text \<open>
  The classification table of the spec, to compare the code with: the categories in the
  order they are checked, the first of them found in an error, and the outcome the table
  gives for it (\<open>None\<close>: none of the categories).
\<close>

definition classificationOrder :: "error_type list" where
  "classificationOrder =
     [ErrMaxDepth, UnknownNamespaceError, UnknownRelationError, invalidRelationError,
      ErrRequestCanceled, ErrInvalidArgument, ErrInvalidRevision, ErrRelationMissingTypeInfo,
      ErrAlwaysFail]"

definition firstMatch :: "go_error \<Rightarrow> error_type option" where
  "firstMatch e = find (\<lambda>t. t \<in> set (chain e)) classificationOrder"

datatype outcome = DeveloperOutcome DeveloperError_Kind | TransportOutcome codes | Propagated

fun tableOutcome :: "error_type option \<Rightarrow> outcome" where
  "tableOutcome (Some ErrMaxDepth) = DeveloperOutcome DeveloperError_MAXIMUM_RECURSION"
| "tableOutcome (Some UnknownNamespaceError) = DeveloperOutcome DeveloperError_UNKNOWN_OBJECT_TYPE"
| "tableOutcome (Some UnknownRelationError) = DeveloperOutcome DeveloperError_UNKNOWN_RELATION"
| "tableOutcome (Some invalidRelationError) = DeveloperOutcome DeveloperError_UNKNOWN_RELATION"
| "tableOutcome (Some ErrRequestCanceled) = TransportOutcome Canceled"
| "tableOutcome (Some ErrInvalidArgument) = TransportOutcome InvalidArgument"
| "tableOutcome (Some ErrInvalidRevision) = TransportOutcome OutOfRange"
| "tableOutcome (Some ErrRelationMissingTypeInfo) = TransportOutcome FailedPrecondition"
| "tableOutcome (Some ErrAlwaysFail) = TransportOutcome Internal"
| "tableOutcome _ = Propagated"

text \<open>The outcome read off a result of the classifier, for an input error \<open>e\<close>.\<close>

definition resultOutcome ::
  "go_error \<Rightarrow> DeveloperError option \<times> go_error option \<times> effect list \<Rightarrow> outcome option" where
  "resultOutcome e r =
     (case r of
        (Some d, None, _) \<Rightarrow> Some (DeveloperOutcome (Kind d))
      | (None, Some w, _) \<Rightarrow>
          if w = e then Some Propagated
          else (case grpcCode w of Some c \<Rightarrow> Some (TransportOutcome c) | None \<Rightarrow> None)
      | _ \<Rightarrow> None)"

section \<open>The sandbox (package development)\<close>

subsection \<open>Data\<close>

text \<open>
  Modelled from the spec: the message types below are generated from protocol files
  outside the source files at hand. A relationship names a resource and a subject; a
  definition has a name and a body that only the validators read; a
  \<open>RelationTupleUpdate\<close> pairs an operation with a relationship, and \<open>tuple.Touch\<close>
  builds the upsert.
\<close>

record RelationTuple =
  ResourceAndRelation :: ObjectAndRelation
  TupleSubject :: ObjectAndRelation

datatype RelationTupleUpdate_Operation = CREATE | TOUCH | DELETE

record RelationTupleUpdate =
  Operation :: RelationTupleUpdate_Operation
  Tuple :: RelationTuple

definition Touch :: "RelationTuple \<Rightarrow> RelationTupleUpdate" where
  "Touch tpl = \<lparr>Operation = TOUCH, Tuple = tpl\<rparr>"

record CaveatDefinition =
  CaveatName :: string
  CaveatBody :: string

record NamespaceDefinition =
  NamespaceName :: string
  NamespaceBody :: string

record CompiledSchema =
  ObjectDefinitions :: "NamespaceDefinition list"
  CaveatDefinitions :: "CaveatDefinition list"

record RequestContext =
  Schema :: string
  Relationships :: "RelationTuple list"

text \<open>
  Modelled from the spec: the storage engine (\<open>memdb\<close>) is outside the source files at
  hand. The spec gives its interface: a read-write transaction with \<open>writeCaveats\<close>,
  \<open>writeNamespaces\<close> and \<open>writeRelationships\<close>, a checkpoint per committed transaction,
  and \<open>close\<close>. A transaction works on a copy of the contents; relationships are kept as
  the batches that were written, one per call.
\<close>

record Contents =
  caveats :: "CaveatDefinition list"
  namespaces :: "NamespaceDefinition list"
  relationshipBatches :: "RelationTupleUpdate list list"

record Datastore =
  committed :: Contents
  revision :: nat

record Dispatcher =
  concurrencyLimit :: nat

text \<open>
  The struct \<open>DevContext\<close>. The context \<open>Ctx\<close> only attributes log lines and is left
  out; \<open>Datastore\<close> and \<open>Dispatcher\<close> are interface values, which may be nil.
\<close>

record DevContext =
  Datastore :: "Datastore option"
  Revision :: nat
  CompiledSchema :: CompiledSchema
  Dispatcher :: "Dispatcher option"

text \<open>
  The collaborators that the code calls and that live outside the source files at hand,
  as parameters: the compiler, the validators of definitions and relationships, the
  failures the storage engine may report for each operation, and what the two \<open>Close\<close>
  methods return.
\<close>

record Env =
  NewMemdbDatastoreErr :: "go_error option"
  CompileSchema :: "string \<Rightarrow> CompiledSchema \<times> DeveloperError option \<times> go_error option"
  ValidateCaveatDefinition :: "CaveatDefinition \<Rightarrow> go_error option"
  NewNamespaceTypeSystem :: "NamespaceDefinition \<Rightarrow> CompiledSchema \<Rightarrow> go_error option"
  TypeSystemValidate :: "NamespaceDefinition \<Rightarrow> CompiledSchema \<Rightarrow> go_error option"
  WriteCaveatsErr :: "CaveatDefinition list \<Rightarrow> Contents \<Rightarrow> go_error option"
  WriteNamespacesErr :: "NamespaceDefinition \<Rightarrow> Contents \<Rightarrow> go_error option"
  WriteRelationshipsErr :: "RelationTupleUpdate list \<Rightarrow> Contents \<Rightarrow> go_error option"
  CommitErr :: "Contents \<Rightarrow> go_error option"
  TupleValidate :: "RelationTuple \<Rightarrow> go_error option"
  TupleString :: "RelationTuple \<Rightarrow> string"
  validateTupleWrite :: "RelationTuple \<Rightarrow> Contents \<Rightarrow> go_error option"
  RequestValidate :: "RequestContext \<Rightarrow> go_error option"
  DatastoreCloseErr :: "go_error option"
  DispatcherCloseErr :: "go_error option"

subsection \<open>The storage interface\<close>

definition NewMemdbDatastore :: "Env \<Rightarrow> go_error + Datastore" where
  "NewMemdbDatastore env =
     (case NewMemdbDatastoreErr env of
        Some err \<Rightarrow> Inl err
      | None \<Rightarrow>
          Inr \<lparr>committed = \<lparr>caveats = [], namespaces = [], relationshipBatches = []\<rparr>,
               revision = 0\<rparr>)"

definition WriteCaveats :: "Env \<Rightarrow> CaveatDefinition list \<Rightarrow> Contents \<Rightarrow> go_error + Contents" where
  "WriteCaveats env defs rwt =
     (case WriteCaveatsErr env defs rwt of
        Some err \<Rightarrow> Inl err
      | None \<Rightarrow> Inr (rwt\<lparr>caveats := caveats rwt @ defs\<rparr>))"

definition WriteNamespaces :: "Env \<Rightarrow> NamespaceDefinition \<Rightarrow> Contents \<Rightarrow> go_error + Contents" where
  "WriteNamespaces env nsDef rwt =
     (case WriteNamespacesErr env nsDef rwt of
        Some err \<Rightarrow> Inl err
      | None \<Rightarrow> Inr (rwt\<lparr>namespaces := namespaces rwt @ [nsDef]\<rparr>))"

definition WriteRelationships ::
  "Env \<Rightarrow> RelationTupleUpdate list \<Rightarrow> Contents \<Rightarrow> go_error option \<times> Contents" where
  "WriteRelationships env updates rwt =
     (case WriteRelationshipsErr env updates rwt of
        Some err \<Rightarrow> (Some err, rwt)
      | None \<Rightarrow> (None, rwt\<lparr>relationshipBatches := relationshipBatches rwt @ [updates]\<rparr>))"

text \<open>
  Modelled from the spec: \<open>Datastore.ReadWriteTx\<close> belongs to the storage engine. The
  callback runs on a transaction over the committed contents and hands back its error
  result, the only thing the engine learns from it: an error rolls the transaction back,
  nil commits it and yields the next checkpoint. The first component of the callback's
  result stands for the variables of the caller that the closure assigns.
\<close>

definition ReadWriteTx ::
  "Env \<Rightarrow> Datastore \<Rightarrow> (Contents \<Rightarrow> 'a \<times> go_error option \<times> Contents)
   \<Rightarrow> 'a \<times> nat \<times> go_error option \<times> Datastore" where
  "ReadWriteTx env ds fn =
     (let (captured, ferr, rwt) = fn (committed ds) in
      case ferr of
        Some err \<Rightarrow> (captured, 0, Some err, ds)
      | None \<Rightarrow>
          (case CommitErr env rwt of
             Some err \<Rightarrow> (captured, 0, Some err, ds)
           | None \<Rightarrow>
               (captured, Suc (revision ds), None,
                ds\<lparr>committed := rwt, revision := Suc (revision ds)\<rparr>)))"

definition DatastoreClose :: "Env \<Rightarrow> go_error option \<times> effect list" where
  "DatastoreClose env = (DatastoreCloseErr env, [DatastoreClosed])"

definition DispatcherClose :: "Env \<Rightarrow> go_error option \<times> effect list" where
  "DispatcherClose env = (DispatcherCloseErr env, [DispatcherClosed])"

definition NewLocalOnlyDispatcher :: "nat \<Rightarrow> Dispatcher" where
  "NewLocalOnlyDispatcher n = \<lparr>concurrencyLimit = n\<rparr>"

subsection \<open>Loading the schema\<close>

text \<open>
  The developer error that \<open>loadCompiled\<close> builds for a failed validation, the same at
  its three places: with the source position when the error carries one (\<open>uint32(...)\<close>
  truncates the 64-bit line and column), else with the name of the definition.
\<close>

definition schemaIssue :: "go_error \<Rightarrow> string \<Rightarrow> DeveloperError" where
  "schemaIssue err name =
     (case AsErrorWithSource err of
        Some errWithSource \<Rightarrow>
          \<lparr>Message = errorString err,
           Line = ucast (LineNumber errWithSource),
           Column = ucast (ColumnPosition errWithSource),
           Source = DeveloperError_SCHEMA,
           Kind = DeveloperError_SCHEMA_ISSUE,
           Context = SourceCodeString errWithSource\<rparr>
      | None \<Rightarrow>
          \<lparr>Message = errorString err, Line = 0, Column = 0,
           Source = DeveloperError_SCHEMA,
           Kind = DeveloperError_SCHEMA_ISSUE,
           Context = name\<rparr>)"

text \<open>
  The two loops of \<open>loadCompiled\<close>. \<open>Inl\<close> is the \<open>return errors, err\<close> inside the loop
  (a storage failure), \<open>Inr\<close> the end of the loop.
\<close>

fun caveatLoop ::
  "Env \<Rightarrow> CaveatDefinition list \<Rightarrow> DeveloperError list \<Rightarrow> Contents
   \<Rightarrow> (DeveloperError list \<times> go_error \<times> Contents) + (DeveloperError list \<times> Contents)" where
  "caveatLoop env [] errors rwt = Inr (errors, rwt)"
| "caveatLoop env (caveatDef # rest) errors rwt =
     (case ValidateCaveatDefinition env caveatDef of
        None \<Rightarrow>
          (case WriteCaveats env [caveatDef] rwt of
             Inl err \<Rightarrow> Inl (errors, err, rwt)
           | Inr rwt' \<Rightarrow> caveatLoop env rest errors rwt')
      | Some cverr \<Rightarrow>
          caveatLoop env rest (errors @ [schemaIssue cverr (CaveatName caveatDef)]) rwt)"

fun namespaceLoop ::
  "Env \<Rightarrow> CompiledSchema \<Rightarrow> NamespaceDefinition list \<Rightarrow> DeveloperError list \<Rightarrow> Contents
   \<Rightarrow> (DeveloperError list \<times> go_error \<times> Contents) + (DeveloperError list \<times> Contents)" where
  "namespaceLoop env resolver [] errors rwt = Inr (errors, rwt)"
| "namespaceLoop env resolver (nsDef # rest) errors rwt =
     (case NewNamespaceTypeSystem env nsDef resolver of
        Some terr \<Rightarrow>
          namespaceLoop env resolver rest
            (errors @ [schemaIssue terr (NamespaceName nsDef)]) rwt
      | None \<Rightarrow>
          (case TypeSystemValidate env nsDef resolver of
             None \<Rightarrow>
               (case WriteNamespaces env nsDef rwt of
                  Inl err \<Rightarrow> Inl (errors, err, rwt)
                | Inr rwt' \<Rightarrow> namespaceLoop env resolver rest errors rwt')
           | Some tverr \<Rightarrow>
               namespaceLoop env resolver rest
                 (errors @ [schemaIssue tverr (NamespaceName nsDef)]) rwt))"

definition loadCompiled ::
  "Env \<Rightarrow> CompiledSchema \<Rightarrow> Contents \<Rightarrow> DeveloperError list \<times> go_error option \<times> Contents" where
  "loadCompiled env compiled rwt =
     (case caveatLoop env (CaveatDefinitions compiled) [] rwt of
        Inl (errors, err, rwt') \<Rightarrow> (errors, Some err, rwt')
      | Inr (errors, rwt') \<Rightarrow>
          (case namespaceLoop env compiled (ObjectDefinitions compiled) errors rwt' of
             Inl (errors', err, rwt'') \<Rightarrow> (errors', Some err, rwt'')
           | Inr (errors', rwt'') \<Rightarrow> (errors', None, rwt'')))"

subsection \<open>Loading the relationships\<close>

text \<open>
  The loop of \<open>loadTuples\<close> with its two slices as accumulators. \<open>Inl\<close> is the
  \<open>return devErrors, wireErr\<close> inside the loop, \<open>Inr\<close> the end of the loop. The
  transaction is only read inside the loop.
\<close>

fun tupleLoop ::
  "Env \<Rightarrow> Contents \<Rightarrow> RelationTuple list \<Rightarrow> DeveloperError list \<Rightarrow> RelationTupleUpdate list
   \<Rightarrow> (DeveloperError list \<times> go_error option \<times> effect list)
     + (DeveloperError list \<times> RelationTupleUpdate list)" where
  "tupleLoop env rwt [] devErrors updates = Inr (devErrors, updates)"
| "tupleLoop env rwt (tpl # rest) devErrors updates =
     (case TupleValidate env tpl of
        Some verr \<Rightarrow>
          tupleLoop env rwt rest
            (devErrors @
               [\<lparr>Message = errorString verr, Line = 0, Column = 0,
                 Source = DeveloperError_RELATIONSHIP,
                 Kind = DeveloperError_PARSE_ERROR,
                 Context = TupleString env tpl\<rparr>])
            updates
      | None \<Rightarrow>
          (case validateTupleWrite env tpl rwt of
             Some err \<Rightarrow>
               (case distinguishGraphError (Some err) DeveloperError_RELATIONSHIP 0 0
                       (TupleString env tpl) of
                  (Some devErr, wireErr, effs) \<Rightarrow>
                    tupleLoop env rwt rest (devErrors @ [devErr]) updates
                | (None, wireErr, effs) \<Rightarrow> Inl (devErrors, wireErr, effs))
           | None \<Rightarrow> tupleLoop env rwt rest devErrors (updates @ [Touch tpl])))"

definition loadTuples ::
  "Env \<Rightarrow> RelationTuple list \<Rightarrow> Contents
   \<Rightarrow> DeveloperError list \<times> go_error option \<times> Contents \<times> effect list" where
  "loadTuples env tuples rwt =
     (case tupleLoop env rwt tuples [] [] of
        Inl (devErrors, wireErr, effs) \<Rightarrow> (devErrors, wireErr, rwt, effs)
      | Inr (devErrors, updates) \<Rightarrow>
          (let (err, rwt') = WriteRelationships env updates rwt in
           (devErrors, err, rwt', [])))"

subsection \<open>Building and disposing of the sandbox\<close>

text \<open>
  The closure handed to \<open>ReadWriteTx\<close> in \<open>newDevContextWithDatastore\<close>. It assigns the
  caller's \<open>inputErrors\<close>, returned here with the effects as the first component. Each
  of its three \<open>return\<close> statements returns the current \<open>err\<close>.
\<close>

definition loadCallback ::
  "Env \<Rightarrow> CompiledSchema \<Rightarrow> RequestContext \<Rightarrow> Contents
   \<Rightarrow> (DeveloperError list \<times> effect list) \<times> go_error option \<times> Contents" where
  "loadCallback env compiled requestContext rwt =
     (let (inputErrors, err, rwt') = loadCompiled env compiled rwt in
      if err \<noteq> None \<or> length inputErrors > 0 then ((inputErrors, []), err, rwt')
      else
        let (inputErrors', err', rwt'', effs) =
              loadTuples env (Relationships requestContext) rwt' in
        ((inputErrors', effs), err', rwt''))"

text \<open>
  The three results of the source are the first component, in its order: the sandbox,
  the developer errors (a pointer to a \<open>DeveloperErrors\<close> message, \<open>None\<close> when nil) and
  the error. The datastore is passed by reference in the source; its state on return is
  the second component, the effects the third.
\<close>

definition newDevContextWithDatastore ::
  "Env \<Rightarrow> RequestContext \<Rightarrow> Datastore
   \<Rightarrow> (DevContext option \<times> DeveloperError list option \<times> go_error option)
     \<times> Datastore \<times> effect list" where
  "newDevContextWithDatastore env requestContext ds =
     (let (compiled, devError, err) = CompileSchema env (Schema requestContext) in
      if err \<noteq> None then ((None, None, err), ds, [])
      else
        case devError of
          Some de \<Rightarrow> ((None, Some [de], None), ds, [])
        | None \<Rightarrow>
            (let ((inputErrors, effs), currentRevision, err', ds') =
                   ReadWriteTx env ds (loadCallback env compiled requestContext) in
             if err' \<noteq> None \<or> length inputErrors > 0 then
               ((None, Some inputErrors, err'), ds', effs)
             else
               case RequestValidate env requestContext of
                 Some verr \<Rightarrow> ((None, None, Some verr), ds', effs)
               | None \<Rightarrow>
                   ((Some \<lparr>Datastore = Some ds',
                           Revision = currentRevision,
                           CompiledSchema = compiled,
                           Dispatcher = Some (NewLocalOnlyDispatcher 10)\<rparr>,
                     None, None),
                    ds', effs)))"

text \<open>
  \<open>NewDevContext\<close>. The second component is the datastore that was created, \<open>None\<close>
  when its creation failed.
\<close>

definition NewDevContext ::
  "Env \<Rightarrow> RequestContext
   \<Rightarrow> (DevContext option \<times> DeveloperError list option \<times> go_error option)
     \<times> Datastore option \<times> effect list" where
  "NewDevContext env requestContext =
     (case NewMemdbDatastore env of
        Inl err \<Rightarrow> ((None, None, Some err), None, [])
      | Inr ds \<Rightarrow>
          (let ((dctx, devErrs, nerr), ds', effs) =
                 newDevContextWithDatastore env requestContext ds in
           if nerr \<noteq> None \<or> devErrs \<noteq> None then
             (let (derr, ceffs) = DatastoreClose env in
              case derr of
                Some e \<Rightarrow> ((None, None, Some e), Some ds', effs @ ceffs)
              | None \<Rightarrow> ((dctx, devErrs, nerr), Some ds', effs @ ceffs))
           else ((dctx, None, None), Some ds', effs)))"

text \<open>
  \<open>Dispose\<close>, a method on a pointer: a nil receiver panics at the first field read.
  Otherwise it returns nothing; what it did is the list of effects.
\<close>

definition Dispose :: "Env \<Rightarrow> DevContext option \<Rightarrow> panic + effect list" where
  "Dispose env dc =
     (case dc of
        None \<Rightarrow> Inl (Panic ''invalid memory address or nil pointer dereference'')
      | Some c \<Rightarrow>
          if Dispatcher c = None then Inr []
          else
            let (err, effs1) = DispatcherClose env;
                log1 = (if err \<noteq> None
                        then [LogErr err ''error when disposing of dispatcher in devcontext'']
                        else [])
            in
            if Datastore c = None then Inr (effs1 @ log1)
            else
              let (err2, effs2) = DatastoreClose env;
                  log2 = (if err2 \<noteq> None
                          then [LogErr err2 ''error when disposing of datastore in devcontext'']
                          else [])
              in Inr (effs1 @ log1 @ effs2 @ log2))"

subsection \<open>What one definition and one relationship contribute\<close>

text \<open>
  To state what the loops accumulate: the developer error, if any, that the body of each
  loop records for one caveat definition, one namespace definition and one relationship.
  A relationship is well formed when both checks pass, rejected when it yields a
  developer error, and infrastructural when the classifier returns no developer error,
  which ends \<open>loadTuples\<close> at once.
\<close>

definition caveatError :: "Env \<Rightarrow> CaveatDefinition \<Rightarrow> DeveloperError option" where
  "caveatError env caveatDef =
     (case ValidateCaveatDefinition env caveatDef of
        None \<Rightarrow> None
      | Some cverr \<Rightarrow> Some (schemaIssue cverr (CaveatName caveatDef)))"

definition namespaceError ::
  "Env \<Rightarrow> CompiledSchema \<Rightarrow> NamespaceDefinition \<Rightarrow> DeveloperError option" where
  "namespaceError env resolver nsDef =
     (case NewNamespaceTypeSystem env nsDef resolver of
        Some terr \<Rightarrow> Some (schemaIssue terr (NamespaceName nsDef))
      | None \<Rightarrow>
          (case TypeSystemValidate env nsDef resolver of
             None \<Rightarrow> None
           | Some tverr \<Rightarrow> Some (schemaIssue tverr (NamespaceName nsDef))))"

datatype tuple_outcome =
    WellFormed
  | Rejected DeveloperError
  | Infrastructural "go_error option" "effect list"

definition tupleOutcome :: "Env \<Rightarrow> Contents \<Rightarrow> RelationTuple \<Rightarrow> tuple_outcome" where
  "tupleOutcome env rwt tpl =
     (case TupleValidate env tpl of
        Some verr \<Rightarrow>
          Rejected \<lparr>Message = errorString verr, Line = 0, Column = 0,
                    Source = DeveloperError_RELATIONSHIP,
                    Kind = DeveloperError_PARSE_ERROR,
                    Context = TupleString env tpl\<rparr>
      | None \<Rightarrow>
          (case validateTupleWrite env tpl rwt of
             None \<Rightarrow> WellFormed
           | Some err \<Rightarrow>
               (case distinguishGraphError (Some err) DeveloperError_RELATIONSHIP 0 0
                       (TupleString env tpl) of
                  (Some devErr, wireErr, effs) \<Rightarrow> Rejected devErr
                | (None, wireErr, effs) \<Rightarrow> Infrastructural wireErr effs)))"

fun rejection :: "tuple_outcome \<Rightarrow> DeveloperError option" where
  "rejection (Rejected devErr) = Some devErr"
| "rejection _ = None"

fun isInfrastructural :: "tuple_outcome \<Rightarrow> bool" where
  "isInfrastructural (Infrastructural wireErr effs) = True"
| "isInfrastructural _ = False"

definition rejectedErrors :: "Env \<Rightarrow> Contents \<Rightarrow> RelationTuple list \<Rightarrow> DeveloperError list" where
  "rejectedErrors env rwt tuples = List.map_filter (\<lambda>tpl. rejection (tupleOutcome env rwt tpl)) tuples"

definition badTuples :: "Env \<Rightarrow> Contents \<Rightarrow> RelationTuple list \<Rightarrow> RelationTuple list" where
  "badTuples env rwt tuples = filter (\<lambda>tpl. rejection (tupleOutcome env rwt tpl) \<noteq> None) tuples"

definition wellFormedTuples :: "Env \<Rightarrow> Contents \<Rightarrow> RelationTuple list \<Rightarrow> RelationTuple list" where
  "wellFormedTuples env rwt tuples = filter (\<lambda>tpl. tupleOutcome env rwt tpl = WellFormed) tuples"

definition emptyContents :: Contents where
  "emptyContents = \<lparr>caveats = [], namespaces = [], relationshipBatches = []\<rparr>"

section \<open>Example inputs\<close>

text \<open>
  Concrete collaborators and requests on which the theorems below are evaluated. The
  compiler yields the definition \<open>document\<close>, and for the schema text \<open>mixed\<close> a second
  definition whose type validation fails; a relationship with an empty resource id fails
  its structural validation; a relationship on the resource \<open>loop\<close> fails the write-time
  check with a depth error, one on \<open>stale\<close> with an invalid revision.
\<close>

definition exampleError :: "string \<Rightarrow> error_type \<Rightarrow> go_error" where
  "exampleError msg t = \<lparr>errorString = msg, chain = [t], withSource = None, grpcCode = None\<rparr>"

definition documentDefinition :: NamespaceDefinition where
  "documentDefinition = \<lparr>NamespaceName = ''document'', NamespaceBody = ''relation viewer: user''\<rparr>"

definition brokenDefinition :: NamespaceDefinition where
  "brokenDefinition = \<lparr>NamespaceName = ''folder'', NamespaceBody = ''relation viewer: missing''\<rparr>"

definition exampleEnv :: Env where
  "exampleEnv =
     \<lparr>NewMemdbDatastoreErr = None,
      CompileSchema = (\<lambda>schema.
        (\<lparr>ObjectDefinitions =
             (if schema = ''mixed'' then [documentDefinition, brokenDefinition]
              else [documentDefinition]),
          CaveatDefinitions = []\<rparr>, None, None)),
      ValidateCaveatDefinition = (\<lambda>caveatDef. None),
      NewNamespaceTypeSystem = (\<lambda>nsDef resolver. None),
      TypeSystemValidate = (\<lambda>nsDef resolver.
        if NamespaceBody nsDef = ''relation viewer: missing''
        then Some (exampleError ''could not lookup definition missing'' OtherError)
        else None),
      WriteCaveatsErr = (\<lambda>defs rwt. None),
      WriteNamespacesErr = (\<lambda>nsDef rwt. None),
      WriteRelationshipsErr = (\<lambda>updates rwt. None),
      CommitErr = (\<lambda>rwt. None),
      TupleValidate = (\<lambda>tpl.
        if ObjectId (ResourceAndRelation tpl) = []
        then Some (exampleError ''invalid ObjectAndRelation.ObjectId'' OtherError)
        else None),
      TupleString = (\<lambda>tpl.
        StringONR (ResourceAndRelation tpl) @ ''@'' @ StringONR (TupleSubject tpl)),
      validateTupleWrite = (\<lambda>tpl rwt.
        if ObjectId (ResourceAndRelation tpl) = ''loop''
        then Some (exampleError ''max depth exceeded'' ErrMaxDepth)
        else if ObjectId (ResourceAndRelation tpl) = ''stale''
        then Some (exampleError ''revision has expired'' ErrInvalidRevision)
        else None),
      RequestValidate = (\<lambda>requestContext. None),
      DatastoreCloseErr = None,
      DispatcherCloseErr = None\<rparr>"

definition exampleTuple :: "string \<Rightarrow> string \<Rightarrow> RelationTuple" where
  "exampleTuple doc user =
     \<lparr>ResourceAndRelation = \<lparr>Namespace = ''document'', ObjectId = doc, Relation = ''viewer''\<rparr>,
      TupleSubject = \<lparr>Namespace = ''user'', ObjectId = user, Relation = ''...''\<rparr>\<rparr>"

text \<open>Three relationships, the second malformed, on a schema that loads.\<close>

definition batchRequest :: RequestContext where
  "batchRequest =
     \<lparr>Schema = ''single'',
      Relationships = [exampleTuple ''first'' ''tom'', exampleTuple [] ''sarah'',
                       exampleTuple ''third'' ''fred'']\<rparr>"

text \<open>A schema with one valid and one invalid namespace definition.\<close>

definition mixedRequest :: RequestContext where
  "mixedRequest = \<lparr>Schema = ''mixed'', Relationships = [exampleTuple ''first'' ''tom'']\<rparr>"

text \<open>A relationship whose write-time check fails with an infrastructural error.\<close>

definition staleRequest :: RequestContext where
  "staleRequest = \<lparr>Schema = ''single'', Relationships = [exampleTuple ''stale'' ''tom'']\<rparr>"

definition closeError :: go_error where
  "closeError = exampleError ''datastore already closed'' OtherError"

definition exampleUser :: "string \<Rightarrow> ObjectAndRelation" where
  "exampleUser n = \<lparr>Namespace = ''user'', ObjectId = n, Relation = ''...''\<rparr>"

text \<open>The wildcard \<open>user:*\<close> with \<open>b\<close> and \<open>a\<close> excluded, in this order.\<close>

definition exampleWildcard :: FoundSubject where
  "exampleWildcard =
     FoundSubject (exampleUser ''*'')
       [NewFoundSubject (exampleUser ''b'') [], NewFoundSubject (exampleUser ''a'') []]
       None {}"

text \<open>The same wildcard, found under a caveat, with only \<open>a\<close> excluded.\<close>

definition exampleConditional :: FoundSubject where
  "exampleConditional =
     FoundSubject (exampleUser ''*'') [NewFoundSubject (exampleUser ''a'') []]
       (Some (CaveatLeaf ''weekday'')) {}"

definition exampleContext :: DevContext where
  "exampleContext =
     \<lparr>Datastore = Some \<lparr>committed = emptyContents, revision = 1\<rparr>,
      Revision = 1,
      CompiledSchema = \<lparr>ObjectDefinitions = [documentDefinition], CaveatDefinitions = []\<rparr>,
      Dispatcher = Some (NewLocalOnlyDispatcher 10)\<rparr>"

text \<open>Four relationships: the second malformed, the third rejected by the write-time check.\<close>

definition rejectedRequest :: RequestContext where
  "rejectedRequest =
     \<lparr>Schema = ''single'',
      Relationships = [exampleTuple ''first'' ''tom'', exampleTuple [] ''sarah'',
                       exampleTuple ''loop'' ''amy'', exampleTuple ''third'' ''fred'']\<rparr>"

text \<open>The collaborators of \<open>exampleEnv\<close>, with a datastore whose \<open>Close\<close> fails.\<close>

definition failingCloseEnv :: Env where
  "failingCloseEnv = exampleEnv\<lparr>DatastoreCloseErr := Some closeError\<rparr>"

text \<open>The contents of the transaction once the schema \<open>single\<close> is loaded.\<close>

definition loadedContents :: Contents where
  "loadedContents =
     \<lparr>caveats = [], namespaces = [documentDefinition], relationshipBatches = []\<rparr>"

section \<open>Properties of found subjects\<close>

subsection \<open>The exclusion loop\<close>

lemma excludedSubjectsLoop_unconditional:
  "list_all (\<lambda>e. caveatExpression e = None) es \<Longrightarrow>
   excludedSubjectsLoop es acc = Inr (acc @ map subject es)"
  by (induction es arbitrary: acc) simp_all

lemma excludedSubjectsLoop_conditional:
  "\<not> list_all (\<lambda>e. caveatExpression e = None) es \<Longrightarrow>
   excludedSubjectsLoop es acc = Inl (Panic ''not yet supported'')"
  by (induction es arbitrary: acc) auto

lemmas found_subject_defs = exampleWildcard_def exampleConditional_def exampleUser_def
  NewFoundSubject_def ToValidationString_def ExcludedSubjectsFromWildcard_def Subject_def
  StringONR_def PublicWildcard_def

text \<open>
  Claim C7. For a wildcard found subject all of whose excluded entries are unconditional,
  \<open>ExcludedSubjectsFromWildcard\<close> returns the subjects of the excluded entries, in their
  order, with \<open>true\<close>; for a found subject that is not a wildcard it returns the empty
  list with \<open>false\<close>; for a wildcard with an excluded entry that carries a caveat
  expression it panics with \<open>not yet supported\<close>.
\<close>

theorem ExcludedSubjectsFromWildcard_spec:
  "(ObjectId (subject fs) = ''*'' \<and> (\<forall>e \<in> set (excludedSubjects fs). caveatExpression e = None)
      \<longrightarrow> ExcludedSubjectsFromWildcard fs = Inr (map subject (excludedSubjects fs), True))
   \<and> (ObjectId (subject fs) \<noteq> ''*'' \<longrightarrow> ExcludedSubjectsFromWildcard fs = Inr ([], False))
   \<and> (ObjectId (subject fs) = ''*'' \<and> (\<exists>e \<in> set (excludedSubjects fs). caveatExpression e \<noteq> None)
      \<longrightarrow> ExcludedSubjectsFromWildcard fs = Inl (Panic ''not yet supported''))"
  by (simp add: ExcludedSubjectsFromWildcard_def PublicWildcard_def
      excludedSubjectsLoop_unconditional excludedSubjectsLoop_conditional list_all_iff)

theorem ExcludedSubjectsFromWildcard_spec_witness:
  "ExcludedSubjectsFromWildcard exampleWildcard
     = Inr ([exampleUser ''b'', exampleUser ''a''], True)
   \<and> ExcludedSubjectsFromWildcard (NewFoundSubject (exampleUser ''tom'') []) = Inr ([], False)
   \<and> ExcludedSubjectsFromWildcard (FoundSubject (exampleUser ''*'') [exampleConditional] None {})
     = Inl (Panic ''not yet supported'')"
  using ExcludedSubjectsFromWildcard_spec [of exampleWildcard]
    ExcludedSubjectsFromWildcard_spec [of "NewFoundSubject (exampleUser ''tom'') []"]
    ExcludedSubjectsFromWildcard_spec
      [of "FoundSubject (exampleUser ''*'') [exampleConditional] None {}"]
  by (simp add: exampleWildcard_def exampleConditional_def exampleUser_def NewFoundSubject_def)

text \<open>
  Claim C6. \<open>ToValidationString\<close> panics for a found subject with a caveat expression.
  For an unconditional one it renders \<open>namespace:objectId#relation\<close>, and for an
  unconditional wildcard with a non-empty list of unconditional exclusions it renders
  \<open>namespace:*#relation - {...}\<close>, the excluded subjects rendered the same way, sorted and
  separated by a comma and a space; the result does not depend on the order in which the
  exclusions are listed.
\<close>

theorem ToValidationString_canonical:
  "(caveatExpression fs \<noteq> None \<longrightarrow>
      ToValidationString fs = Inl (Panic ''conditional found subjects not yet supported''))
   \<and> (caveatExpression fs = None \<and> (ObjectId (subject fs) \<noteq> ''*'' \<or> excludedSubjects fs = []) \<longrightarrow>
      ToValidationString fs =
        Inr (Namespace (subject fs) @ '':'' @ ObjectId (subject fs) @ ''#'' @ Relation (subject fs)))
   \<and> (caveatExpression fs = None \<and> ObjectId (subject fs) = ''*'' \<and> excludedSubjects fs \<noteq> []
        \<and> (\<forall>e \<in> set (excludedSubjects fs). caveatExpression e = None) \<longrightarrow>
      ToValidationString fs =
        Inr (Namespace (subject fs) @ '':*#'' @ Relation (subject fs) @ '' - {''
             @ Join (sort (map (\<lambda>e. StringONR (subject e)) (excludedSubjects fs))) '', '' @ ''}'')
      \<and> sorted (sort (map (\<lambda>e. StringONR (subject e)) (excludedSubjects fs))))
   \<and> (\<forall>fs'. subject fs' = subject fs \<and> caveatExpression fs' = None \<and> caveatExpression fs = None
        \<and> mset (excludedSubjects fs') = mset (excludedSubjects fs) \<longrightarrow>
      ToValidationString fs' = ToValidationString fs)"
proof -
  let ?names = "map (\<lambda>e. StringONR (subject e)) (excludedSubjects fs)"
  have c1: "caveatExpression fs \<noteq> None \<longrightarrow>
      ToValidationString fs = Inl (Panic ''conditional found subjects not yet supported'')"
    by (simp add: ToValidationString_def)
  have c2: "caveatExpression fs = None \<and> (ObjectId (subject fs) \<noteq> ''*'' \<or> excludedSubjects fs = []) \<longrightarrow>
      ToValidationString fs =
        Inr (Namespace (subject fs) @ '':'' @ ObjectId (subject fs) @ ''#'' @ Relation (subject fs))"
    by (auto simp: ToValidationString_def ExcludedSubjectsFromWildcard_def PublicWildcard_def
        StringONR_def Subject_def)
  have c3: "caveatExpression fs = None \<and> ObjectId (subject fs) = ''*'' \<and> excludedSubjects fs \<noteq> []
        \<and> (\<forall>e \<in> set (excludedSubjects fs). caveatExpression e = None) \<longrightarrow>
      ToValidationString fs =
        Inr (Namespace (subject fs) @ '':*#'' @ Relation (subject fs) @ '' - {''
             @ Join (sort ?names) '', '' @ ''}'')
      \<and> sorted (sort ?names)"
    by (simp add: ToValidationString_def ExcludedSubjectsFromWildcard_def PublicWildcard_def
        StringONR_def Subject_def excludedSubjectsLoop_unconditional list_all_iff comp_def)
  have c4: "\<forall>fs'. subject fs' = subject fs \<and> caveatExpression fs' = None \<and> caveatExpression fs = None
        \<and> mset (excludedSubjects fs') = mset (excludedSubjects fs) \<longrightarrow>
      ToValidationString fs' = ToValidationString fs"
  proof (intro allI impI, elim conjE)
    fix fs'
    assume s: "subject fs' = subject fs" and n': "caveatExpression fs' = None"
      and n: "caveatExpression fs = None"
      and m: "mset (excludedSubjects fs') = mset (excludedSubjects fs)"
    from m have se: "set (excludedSubjects fs') = set (excludedSubjects fs)"
      by (rule mset_eq_setD)
    from m have le: "excludedSubjects fs' = [] \<longleftrightarrow> excludedSubjects fs = []"
      by (metis mset_zero_iff)
    from m have "mset (map subject (excludedSubjects fs')) = mset (map subject (excludedSubjects fs))"
      by (metis mset_map)
    then have "mset (map StringONR (map subject (excludedSubjects fs')))
        = mset (map StringONR (map subject (excludedSubjects fs)))"
      by (metis mset_map)
    then have so: "sort (map StringONR (map subject (excludedSubjects fs')))
        = sort (map StringONR (map subject (excludedSubjects fs)))"
      by (metis properties_for_sort sorted_sort mset_sort)
    show "ToValidationString fs' = ToValidationString fs"
    proof (cases "list_all (\<lambda>e. caveatExpression e = None) (excludedSubjects fs)")
      case True
      then have "list_all (\<lambda>e. caveatExpression e = None) (excludedSubjects fs')"
        using se by (simp add: list_all_iff)
      with True s n n' le so show ?thesis
        by (simp add: ToValidationString_def ExcludedSubjectsFromWildcard_def Subject_def
            excludedSubjectsLoop_unconditional Let_def)
    next
      case False
      then have "\<not> list_all (\<lambda>e. caveatExpression e = None) (excludedSubjects fs')"
        using se by (simp add: list_all_iff)
      with False s n n' show ?thesis
        by (simp add: ToValidationString_def ExcludedSubjectsFromWildcard_def Subject_def
            excludedSubjectsLoop_conditional)
    qed
  qed
  from c1 c2 c3 c4 show ?thesis by blast
qed

theorem ToValidationString_canonical_witness:
  "ToValidationString exampleWildcard = Inr ''user:*#... - {user:a#..., user:b#...}''
   \<and> ToValidationString (NewFoundSubject (exampleUser ''tom'') []) = Inr ''user:tom#...''
   \<and> ToValidationString exampleConditional
     = Inl (Panic ''conditional found subjects not yet supported'')
   \<and> ToValidationString
       (FoundSubject (exampleUser ''*'')
          [NewFoundSubject (exampleUser ''a'') [], NewFoundSubject (exampleUser ''b'') []] None {})
     = ToValidationString exampleWildcard"
proof -
  let ?swapped = "FoundSubject (exampleUser ''*'')
          [NewFoundSubject (exampleUser ''a'') [], NewFoundSubject (exampleUser ''b'') []] None {}"
  have 1: "ToValidationString exampleWildcard = Inr ''user:*#... - {user:a#..., user:b#...}''"
    using ToValidationString_canonical [of exampleWildcard]
    by (simp add: exampleWildcard_def exampleUser_def NewFoundSubject_def StringONR_def)
  have 2: "ToValidationString (NewFoundSubject (exampleUser ''tom'') []) = Inr ''user:tom#...''"
    using ToValidationString_canonical [of "NewFoundSubject (exampleUser ''tom'') []"]
    by (simp add: exampleUser_def NewFoundSubject_def)
  have 3: "ToValidationString exampleConditional
     = Inl (Panic ''conditional found subjects not yet supported'')"
    using ToValidationString_canonical [of exampleConditional]
    by (simp add: exampleConditional_def)
  have "subject ?swapped = subject exampleWildcard \<and> caveatExpression ?swapped = None
      \<and> caveatExpression exampleWildcard = None
      \<and> mset (excludedSubjects ?swapped) = mset (excludedSubjects exampleWildcard)"
    by (simp add: exampleWildcard_def add.commute)
  with ToValidationString_canonical [of exampleWildcard]
  have 4: "ToValidationString ?swapped = ToValidationString exampleWildcard"
    by blast
  from 1 2 3 4 show ?thesis by simp
qed

section \<open>Properties of the subject tracking set\<close>

lemma keyOf_eq_iff: "keyOf a = keyOf b \<longleftrightarrow> subject a = subject b"
  by (auto simp: keyOf_def GetSubjectId_def)

lemma keyOfONR_subject: "keyOfONR (subject a) = keyOf a"
  by (simp add: keyOfONR_def keyOf_def GetSubjectId_def)

lemma keyOfONR_eq_iff: "keyOfONR x = keyOfONR y \<longleftrightarrow> x = y"
  by (auto simp: keyOfONR_def)






text \<open>
  Claim C3. Two found subjects have the same key in the tracking set exactly when their
  \<open>subject\<close> fields are equal as triples; the key is made of the namespace, the object
  id and the relation of the subject and of nothing else. Adding two found subjects to
  an empty set leaves one entry when their subjects are equal and two otherwise, and a
  lookup finds an entry exactly under the subject that was added.
\<close>

theorem subject_identity_key:
  "(keyOf a = keyOf b \<longleftrightarrow> subject a = subject b)
   \<and> keyOf (FoundSubject s ex c r) = (Namespace s, ObjectId s, Relation s)
   \<and> length (ListFound (FoundSubjects (tssAdd (tssAdd NewTrackingSubjectSet a) b)))
       = (if subject a = subject b then 1 else 2)
   \<and> (LookupSubject (FoundSubjects (tssAdd NewTrackingSubjectSet a)) onr \<noteq> None
        \<longleftrightarrow> onr = subject a)"
proof -
  have 1: "keyOf a = keyOf b \<longleftrightarrow> subject a = subject b"
    by (rule keyOf_eq_iff)
  have 2: "keyOf (FoundSubject s ex c r) = (Namespace s, ObjectId s, Relation s)"
    by (simp add: keyOf_def GetSubjectId_def)
  have 3: "length (ListFound (FoundSubjects (tssAdd (tssAdd NewTrackingSubjectSet a) b)))
       = (if subject a = subject b then 1 else 2)"
    by (simp add: ListFound_def tssAdd_def tssToSlice_def NewTrackingSubjectSet_def keyOf_eq_iff)
  have "LookupSubject (FoundSubjects (tssAdd NewTrackingSubjectSet a)) onr \<noteq> None
        \<longleftrightarrow> keyOfONR onr = keyOfONR (subject a)"
    by (simp add: LookupSubject_def tssAdd_def tssGet_def NewTrackingSubjectSet_def
        keyOfONR_subject eq_commute)
  then have 4: "LookupSubject (FoundSubjects (tssAdd NewTrackingSubjectSet a)) onr \<noteq> None
        \<longleftrightarrow> onr = subject a"
    by (simp only: keyOfONR_eq_iff)
  from 1 2 3 4 show ?thesis by blast
qed

theorem subject_identity_key_witness:
  "keyOf exampleWildcard = keyOf exampleConditional
   \<and> keyOf exampleWildcard \<noteq> keyOf (NewFoundSubject (exampleUser ''tom'') [])
   \<and> length (ListFound (FoundSubjects
        (tssAdd (tssAdd NewTrackingSubjectSet exampleWildcard) exampleConditional))) = 1
   \<and> length (ListFound (FoundSubjects
        (tssAdd (tssAdd NewTrackingSubjectSet exampleWildcard)
           (NewFoundSubject (exampleUser ''tom'') [])))) = 2
   \<and> LookupSubject (FoundSubjects (tssAdd NewTrackingSubjectSet exampleWildcard))
        (exampleUser ''tom'') = None"
  using subject_identity_key [of exampleWildcard exampleConditional _ _ _ _ "exampleUser ''tom''"]
    subject_identity_key [of exampleWildcard "NewFoundSubject (exampleUser ''tom'') []"]
  by (simp add: exampleWildcard_def exampleConditional_def exampleUser_def NewFoundSubject_def)



section \<open>Properties of the error classifier\<close>

lemma rewriteACLError_Some_nonnil: "fst (rewriteACLError (Some e)) \<noteq> None"
  by (simp add: rewriteACLError_def)

lemma firstMatch_cases:
  "firstMatch e =
    (if ErrMaxDepth \<in> set (chain e) then Some ErrMaxDepth
     else if UnknownNamespaceError \<in> set (chain e) then Some UnknownNamespaceError
     else if UnknownRelationError \<in> set (chain e) then Some UnknownRelationError
     else if invalidRelationError \<in> set (chain e) then Some invalidRelationError
     else if ErrRequestCanceled \<in> set (chain e) then Some ErrRequestCanceled
     else if ErrInvalidArgument \<in> set (chain e) then Some ErrInvalidArgument
     else if ErrInvalidRevision \<in> set (chain e) then Some ErrInvalidRevision
     else if ErrRelationMissingTypeInfo \<in> set (chain e) then Some ErrRelationMissingTypeInfo
     else if ErrAlwaysFail \<in> set (chain e) then Some ErrAlwaysFail
     else None)"
  by (simp add: firstMatch_def classificationOrder_def)

lemma statusErrorf_neq:
  "t \<in> set (chain e) \<Longrightarrow> t \<noteq> StatusError \<Longrightarrow> statusErrorf c d \<noteq> e"
  by (auto simp: statusErrorf_def)

lemma distinguish_outcome:
  "resultOutcome e (distinguishGraphError (Some e) source line column context)
     = Some (tableOutcome (firstMatch e))"
  by (simp add: firstMatch_cases distinguishGraphError_def rewriteACLError_def errorsIs_def
      errorsAs_def resultOutcome_def statusErrorf_neq)
     (simp add: statusErrorf_def)

text \<open>
  Claim C4. For a non-nil dispatch error, \<open>distinguishGraphError\<close> returns a developer
  error or an error, never both and never neither; which one, and of which kind or
  transport code, is what the classification table gives for the first category, in the
  fixed order of the checks, that the error belongs to (and the error itself, unchanged,
  when it belongs to none); an error that is a depth-limit error yields the developer
  error of kind MAXIMUM_RECURSION with the message, source, position and context given.
\<close>

theorem distinguishGraphError_classifies:
  assumes "dispatchError = Some e"
  shows "(fst (distinguishGraphError dispatchError source line column context) \<noteq> None)
           \<noteq> (fst (snd (distinguishGraphError dispatchError source line column context)) \<noteq> None)
     \<and> resultOutcome e (distinguishGraphError dispatchError source line column context)
           = Some (tableOutcome (firstMatch e))
     \<and> (errorsIs dispatchError ErrMaxDepth \<longrightarrow>
          distinguishGraphError dispatchError source line column context
            = (Some \<lparr>Message = errorString e, Line = line, Column = column, Source = source,
                     Kind = DeveloperError_MAXIMUM_RECURSION, Context = context\<rparr>, None, []))"
proof -
  have x: "(fst (distinguishGraphError (Some e) source line column context) \<noteq> None)
           \<noteq> (fst (snd (distinguishGraphError (Some e) source line column context)) \<noteq> None)"
    using rewriteACLError_Some_nonnil[of e]
    by (simp add: distinguishGraphError_def split_beta)
  have m: "errorsIs (Some e) ErrMaxDepth \<longrightarrow>
          distinguishGraphError (Some e) source line column context
            = (Some \<lparr>Message = errorString e, Line = line, Column = column, Source = source,
                     Kind = DeveloperError_MAXIMUM_RECURSION, Context = context\<rparr>, None, [])"
    by (simp add: distinguishGraphError_def)
  from x m distinguish_outcome show ?thesis
    unfolding assms by blast
qed

theorem distinguishGraphError_classifies_witness:
  "distinguishGraphError
     (Some \<lparr>errorString = ''max depth exceeded'', chain = [UnknownNamespaceError, ErrMaxDepth],
            withSource = None, grpcCode = None\<rparr>)
     DeveloperError_RELATIONSHIP 3 7 ''document:loop#viewer''
   = (Some \<lparr>Message = ''max depth exceeded'', Line = 3, Column = 7,
            Source = DeveloperError_RELATIONSHIP, Kind = DeveloperError_MAXIMUM_RECURSION,
            Context = ''document:loop#viewer''\<rparr>, None, [])
   \<and> resultOutcome (exampleError ''revision has expired'' ErrInvalidRevision)
       (distinguishGraphError (Some (exampleError ''revision has expired'' ErrInvalidRevision))
          DeveloperError_RELATIONSHIP 0 0 [])
     = Some (TransportOutcome OutOfRange)"
  using distinguishGraphError_classifies
      [OF refl, of "\<lparr>errorString = ''max depth exceeded'',
                      chain = [UnknownNamespaceError, ErrMaxDepth],
                      withSource = None, grpcCode = None\<rparr>"
        DeveloperError_RELATIONSHIP 3 7 "''document:loop#viewer''"]
    distinguishGraphError_classifies
      [OF refl, of "exampleError ''revision has expired'' ErrInvalidRevision"
        DeveloperError_RELATIONSHIP 0 0 "[]"]
  by (simp add: errorsIs_def errorsAs_def exampleError_def firstMatch_cases)

section \<open>Properties of the sandbox\<close>

subsection \<open>What the loops accumulate\<close>

lemma tupleLoop_no_infrastructural:
  "list_all (\<lambda>tpl. \<not> isInfrastructural (tupleOutcome env rwt tpl)) tuples \<Longrightarrow>
   tupleLoop env rwt tuples devErrors updates =
     Inr (devErrors @ rejectedErrors env rwt tuples,
          updates @ map Touch (wellFormedTuples env rwt tuples))"
proof (induction tuples arbitrary: devErrors updates)
  case Nil
  then show ?case
    by (simp add: rejectedErrors_def wellFormedTuples_def List.map_filter_simps)
next
  case (Cons tpl rest)
  then show ?case
    by (auto simp: rejectedErrors_def wellFormedTuples_def List.map_filter_simps tupleOutcome_def
        split: option.splits prod.splits)
qed

lemma length_rejectedErrors:
  "length (rejectedErrors env rwt tuples) = length (badTuples env rwt tuples)"
  by (induction tuples)
     (auto simp: rejectedErrors_def badTuples_def List.map_filter_simps split: option.splits)

lemma rejectedErrors_nonempty:
  "badTuples env rwt tuples \<noteq> [] \<Longrightarrow> rejectedErrors env rwt tuples \<noteq> []"
  using length_rejectedErrors[of env rwt tuples] by auto

lemma loadTuples_no_infrastructural:
  assumes "list_all (\<lambda>tpl. \<not> isInfrastructural (tupleOutcome env rwt tpl)) tuples"
  shows "loadTuples env tuples rwt =
     (rejectedErrors env rwt tuples,
      fst (WriteRelationships env (map Touch (wellFormedTuples env rwt tuples)) rwt),
      snd (WriteRelationships env (map Touch (wellFormedTuples env rwt tuples)) rwt), [])"
  using tupleLoop_no_infrastructural[OF assms, of "[]" "[]"]
  by (simp add: loadTuples_def split_beta)

lemma caveatLoop_no_failure:
  "(\<And>defs c. WriteCaveatsErr env defs c = None) \<Longrightarrow>
   caveatLoop env defs errors rwt =
     Inr (errors @ List.map_filter (caveatError env) defs,
          rwt\<lparr>caveats := caveats rwt @ filter (\<lambda>d. caveatError env d = None) defs\<rparr>)"
proof (induction defs arbitrary: errors rwt)
  case Nil
  then show ?case by (simp add: List.map_filter_simps)
next
  case (Cons d rest)
  then show ?case
    by (auto simp: List.map_filter_simps caveatError_def WriteCaveats_def split: option.splits)
qed

lemma namespaceLoop_no_failure:
  "(\<And>d c. WriteNamespacesErr env d c = None) \<Longrightarrow>
   namespaceLoop env resolver defs errors rwt =
     Inr (errors @ List.map_filter (namespaceError env resolver) defs,
          rwt\<lparr>namespaces := namespaces rwt @ filter (\<lambda>d. namespaceError env resolver d = None) defs\<rparr>)"
proof (induction defs arbitrary: errors rwt)
  case Nil
  then show ?case by (simp add: List.map_filter_simps)
next
  case (Cons d rest)
  then show ?case
    by (auto simp: List.map_filter_simps namespaceError_def WriteNamespaces_def split: option.splits)
qed

lemma loadCompiled_no_failure:
  assumes "\<And>defs c. WriteCaveatsErr env defs c = None"
    and "\<And>d c. WriteNamespacesErr env d c = None"
  shows "loadCompiled env compiled rwt =
     (List.map_filter (caveatError env) (CaveatDefinitions compiled)
        @ List.map_filter (namespaceError env compiled) (ObjectDefinitions compiled),
      None,
      rwt\<lparr>caveats := caveats rwt @ filter (\<lambda>d. caveatError env d = None) (CaveatDefinitions compiled),
          namespaces := namespaces rwt
             @ filter (\<lambda>d. namespaceError env compiled d = None) (ObjectDefinitions compiled)\<rparr>)"
  by (simp add: loadCompiled_def caveatLoop_no_failure[OF assms(1)]
      namespaceLoop_no_failure[OF assms(2)])

lemma map_filter_empty_iff:
  "List.map_filter f xs = [] \<longleftrightarrow> list_all (\<lambda>x. f x = None) xs"
  by (induction xs) (auto simp: List.map_filter_simps split: option.splits)

subsection \<open>The effects of loading\<close>

lemma rewriteACLError_logs: "DatastoreClosed \<notin> set (snd (rewriteACLError err))"
  by (simp add: rewriteACLError_def split: option.splits)

lemma distinguishGraphError_logs:
  "DatastoreClosed \<notin> set (snd (snd (distinguishGraphError err source line column context)))"
proof (cases err)
  case None
  with rewriteACLError_logs[of None] show ?thesis
    by (simp add: distinguishGraphError_def split_beta)
next
  case (Some e)
  with rewriteACLError_logs[of "Some e"] show ?thesis
    by (simp add: distinguishGraphError_def split_beta)
qed

lemma tupleLoop_logs:
  "tupleLoop env rwt tuples devErrors updates = Inl (devErrors', wireErr, effs) \<Longrightarrow>
   DatastoreClosed \<notin> set effs"
proof (induction tuples arbitrary: devErrors updates)
  case Nil
  then show ?case by simp
next
  case (Cons tpl rest)
  show ?case
  proof (cases "TupleValidate env tpl")
    case (Some verr)
    with Cons show ?thesis by simp
  next
    case None
    note tv = this
    show ?thesis
    proof (cases "validateTupleWrite env tpl rwt")
      case None
      with tv Cons show ?thesis by simp
    next
      case (Some err)
      obtain d w es where r: "distinguishGraphError (Some err) DeveloperError_RELATIONSHIP 0 0
          (TupleString env tpl) = (d, w, es)"
        by (cases "distinguishGraphError (Some err) DeveloperError_RELATIONSHIP 0 0
          (TupleString env tpl)") auto
      from distinguishGraphError_logs[of "Some err" DeveloperError_RELATIONSHIP 0 0
          "TupleString env tpl"] r
      have es: "DatastoreClosed \<notin> set es" by simp
      show ?thesis
      proof (cases d)
        case None
        with Cons.prems tv Some r es show ?thesis by simp
      next
        case (Some devErr)
        with Cons tv \<open>validateTupleWrite env tpl rwt = Some err\<close> r show ?thesis by simp
      qed
    qed
  qed
qed

lemma loadTuples_logs:
  "DatastoreClosed \<notin> set (snd (snd (snd (loadTuples env tuples rwt))))"
  by (auto simp: loadTuples_def split_beta split: sum.splits dest: tupleLoop_logs)

lemma loadCallback_logs:
  "DatastoreClosed \<notin> set (snd (fst (loadCallback env compiled requestContext rwt)))"
  by (simp add: loadCallback_def split_beta Let_def loadTuples_logs)

lemma ReadWriteTx_captured: "fst (ReadWriteTx env ds fn) = fst (fn (committed ds))"
  by (simp add: ReadWriteTx_def split_beta split: option.splits)

lemma newDevContextWithDatastore_logs:
  "DatastoreClosed \<notin> set (snd (snd (newDevContextWithDatastore env requestContext ds)))"
  using loadCallback_logs[of env "fst (CompileSchema env (Schema requestContext))"
      requestContext "committed ds"]
  by (simp add: newDevContextWithDatastore_def split_beta Let_def ReadWriteTx_captured
      split: option.splits)

lemma newDevContextWithDatastore_failure:
  "newDevContextWithDatastore env requestContext ds = ((dctx, devErrs, nerr), ds', effs) \<Longrightarrow>
   (dctx = None) = (nerr \<noteq> None \<or> devErrs \<noteq> None)"
  by (auto simp: newDevContextWithDatastore_def split_beta Let_def
      split: option.splits if_splits dest: sym)

subsection \<open>The example requests, evaluated\<close>

lemmas example_defs = exampleEnv_def failingCloseEnv_def batchRequest_def mixedRequest_def
  staleRequest_def rejectedRequest_def exampleTuple_def exampleError_def documentDefinition_def
  brokenDefinition_def closeError_def emptyContents_def loadedContents_def

lemmas sandbox_defs = NewDevContext_def NewMemdbDatastore_def newDevContextWithDatastore_def
  ReadWriteTx_def loadCallback_def loadCompiled_def loadTuples_def WriteRelationships_def
  WriteNamespaces_def WriteCaveats_def DatastoreClose_def schemaIssue_def AsErrorWithSource_def
  distinguishGraphError_def rewriteACLError_def errorsAs_def errorsIs_def statusErrorf_def
  Touch_def StringONR_def NewLocalOnlyDispatcher_def

lemma stale_eval:
  "NewDevContext exampleEnv staleRequest =
    ((None, Some [],
      Some \<lparr>errorString = ''invalid zookie: revision has expired'', chain = [StatusError],
            withSource = None, grpcCode = Some OutOfRange\<rparr>),
     Some \<lparr>committed = emptyContents, revision = 0\<rparr>,
     [DatastoreClosed])"
  by (simp add: example_defs sandbox_defs)

lemma stale_load:
  "newDevContextWithDatastore failingCloseEnv staleRequest \<lparr>committed = emptyContents, revision = 0\<rparr> =
    ((None, Some [],
      Some \<lparr>errorString = ''invalid zookie: revision has expired'', chain = [StatusError],
            withSource = None, grpcCode = Some OutOfRange\<rparr>),
     \<lparr>committed = emptyContents, revision = 0\<rparr>, [])"
  by (simp add: example_defs sandbox_defs)

subsection \<open>Loading relationships\<close>

text \<open>
  Claim C1, as amended. When the schema loads without errors, no relationship ends in
  an infrastructural error, at least one relationship is bad, and the storage accepts the
  write, the commit and the close: \<open>loadTuples\<close> records exactly one developer error per
  bad relationship, in order; the batch write is not skipped, the well-formed
  relationships are written in a single batch; the callback returns nil, so the
  transaction is committed; \<open>NewDevContext\<close> returns the developer errors without a
  sandbox and closes the datastore.
\<close>

theorem loadTuples_errors_batch:
  assumes created: "NewMemdbDatastoreErr env = None"
    and compiled: "CompileSchema env (Schema requestContext) = (compiled, None, None)"
    and loaded: "loadCompiled env compiled emptyContents = ([], None, rwt)"
    and noinfra: "list_all (\<lambda>tpl. \<not> isInfrastructural (tupleOutcome env rwt tpl))
                    (Relationships requestContext)"
    and bad: "badTuples env rwt (Relationships requestContext) \<noteq> []"
    and wr: "WriteRelationshipsErr env
                  (map Touch (wellFormedTuples env rwt (Relationships requestContext))) rwt = None"
    and commit: "CommitErr env
                  (rwt\<lparr>relationshipBatches := relationshipBatches rwt
                     @ [map Touch (wellFormedTuples env rwt (Relationships requestContext))]\<rparr>) = None"
    and close: "DatastoreCloseErr env = None"
  shows "loadTuples env (Relationships requestContext) rwt
           = (rejectedErrors env rwt (Relationships requestContext), None,
              rwt\<lparr>relationshipBatches := relationshipBatches rwt
                 @ [map Touch (wellFormedTuples env rwt (Relationships requestContext))]\<rparr>, [])
     \<and> length (rejectedErrors env rwt (Relationships requestContext))
           = length (badTuples env rwt (Relationships requestContext))
     \<and> NewDevContext env requestContext
           = ((None, Some (rejectedErrors env rwt (Relationships requestContext)), None),
              Some \<lparr>committed = rwt\<lparr>relationshipBatches := relationshipBatches rwt
                      @ [map Touch (wellFormedTuples env rwt (Relationships requestContext))]\<rparr>,
                    revision = 1\<rparr>,
              [DatastoreClosed])"
proof -
  let ?tuples = "Relationships requestContext"
  let ?rwt' = "rwt\<lparr>relationshipBatches := relationshipBatches rwt
                 @ [map Touch (wellFormedTuples env rwt ?tuples)]\<rparr>"
  have lt: "loadTuples env ?tuples rwt = (rejectedErrors env rwt ?tuples, None, ?rwt', [])"
    using wr by (simp add: loadTuples_no_infrastructural[OF noinfra] WriteRelationships_def)
  have ne: "rejectedErrors env rwt ?tuples \<noteq> []"
    using bad by (rule rejectedErrors_nonempty)
  have cb: "loadCallback env compiled requestContext emptyContents
      = ((rejectedErrors env rwt ?tuples, []), None, ?rwt')"
    by (simp add: loadCallback_def loaded lt)
  have tx: "ReadWriteTx env \<lparr>committed = emptyContents, revision = 0\<rparr>
        (loadCallback env compiled requestContext)
      = ((rejectedErrors env rwt ?tuples, []), 1, None, \<lparr>committed = ?rwt', revision = 1\<rparr>)"
    using commit by (simp add: ReadWriteTx_def cb)
  have nd: "newDevContextWithDatastore env requestContext \<lparr>committed = emptyContents, revision = 0\<rparr>
      = ((None, Some (rejectedErrors env rwt ?tuples), None),
         \<lparr>committed = ?rwt', revision = 1\<rparr>, [])"
    using ne by (simp add: newDevContextWithDatastore_def compiled tx)
  have mk: "NewMemdbDatastore env = Inr \<lparr>committed = emptyContents, revision = 0\<rparr>"
    using created by (simp add: NewMemdbDatastore_def emptyContents_def)
  have "NewDevContext env requestContext
           = ((None, Some (rejectedErrors env rwt ?tuples), None),
              Some \<lparr>committed = ?rwt', revision = 1\<rparr>, [DatastoreClosed])"
    using close by (simp add: NewDevContext_def mk nd DatastoreClose_def)
  with lt length_rejectedErrors show ?thesis by simp
qed

theorem loadTuples_errors_batch_witness:
  "NewDevContext exampleEnv rejectedRequest
     = ((None,
         Some [\<lparr>Message = ''invalid ObjectAndRelation.ObjectId'', Line = 0, Column = 0,
                 Source = DeveloperError_RELATIONSHIP, Kind = DeveloperError_PARSE_ERROR,
                 Context = ''document:#viewer@user:sarah#...''\<rparr>,
               \<lparr>Message = ''max depth exceeded'', Line = 0, Column = 0,
                 Source = DeveloperError_RELATIONSHIP, Kind = DeveloperError_MAXIMUM_RECURSION,
                 Context = ''document:loop#viewer@user:amy#...''\<rparr>],
         None),
        Some \<lparr>committed =
                \<lparr>caveats = [], namespaces = [documentDefinition],
                 relationshipBatches =
                   [[Touch (exampleTuple ''first'' ''tom''),
                     Touch (exampleTuple ''third'' ''fred'')]]\<rparr>,
              revision = 1\<rparr>,
        [DatastoreClosed])"
proof -
  let ?compiled = "\<lparr>ObjectDefinitions = [documentDefinition], CaveatDefinitions = []\<rparr>"
  have h1: "NewMemdbDatastoreErr exampleEnv = None"
    by (simp add: exampleEnv_def)
  have h2: "CompileSchema exampleEnv (Schema rejectedRequest) = (?compiled, None, None)"
    by (simp add: exampleEnv_def rejectedRequest_def)
  have h3: "loadCompiled exampleEnv ?compiled emptyContents = ([], None, loadedContents)"
    by (simp add: example_defs sandbox_defs)
  have o1: "tupleOutcome exampleEnv loadedContents (exampleTuple ''first'' ''tom'') = WellFormed"
    by (simp add: tupleOutcome_def example_defs)
  have o2: "tupleOutcome exampleEnv loadedContents (exampleTuple [] ''sarah'')
      = Rejected \<lparr>Message = ''invalid ObjectAndRelation.ObjectId'', Line = 0, Column = 0,
                 Source = DeveloperError_RELATIONSHIP, Kind = DeveloperError_PARSE_ERROR,
                 Context = ''document:#viewer@user:sarah#...''\<rparr>"
    by (simp add: tupleOutcome_def example_defs StringONR_def)
  have o3: "tupleOutcome exampleEnv loadedContents (exampleTuple ''loop'' ''amy'')
      = Rejected \<lparr>Message = ''max depth exceeded'', Line = 0, Column = 0,
                 Source = DeveloperError_RELATIONSHIP, Kind = DeveloperError_MAXIMUM_RECURSION,
                 Context = ''document:loop#viewer@user:amy#...''\<rparr>"
    by (simp add: tupleOutcome_def example_defs sandbox_defs)
  have o4: "tupleOutcome exampleEnv loadedContents (exampleTuple ''third'' ''fred'') = WellFormed"
    by (simp add: tupleOutcome_def example_defs)
  have h4: "list_all (\<lambda>tpl. \<not> isInfrastructural (tupleOutcome exampleEnv loadedContents tpl))
      (Relationships rejectedRequest)"
    by (simp add: rejectedRequest_def o1 o2 o3 o4)
  have h5: "badTuples exampleEnv loadedContents (Relationships rejectedRequest) \<noteq> []"
    by (simp add: badTuples_def rejectedRequest_def o1 o2 o3 o4)
  have h6: "WriteRelationshipsErr exampleEnv
      (map Touch (wellFormedTuples exampleEnv loadedContents (Relationships rejectedRequest)))
      loadedContents = None"
    by (simp add: exampleEnv_def)
  have h7: "CommitErr exampleEnv
      (loadedContents\<lparr>relationshipBatches := relationshipBatches loadedContents
         @ [map Touch (wellFormedTuples exampleEnv loadedContents
                         (Relationships rejectedRequest))]\<rparr>) = None"
    by (simp add: exampleEnv_def)
  have h8: "DatastoreCloseErr exampleEnv = None"
    by (simp add: exampleEnv_def)
  have r: "rejectedErrors exampleEnv loadedContents (Relationships rejectedRequest)
      = [\<lparr>Message = ''invalid ObjectAndRelation.ObjectId'', Line = 0, Column = 0,
                 Source = DeveloperError_RELATIONSHIP, Kind = DeveloperError_PARSE_ERROR,
                 Context = ''document:#viewer@user:sarah#...''\<rparr>,
         \<lparr>Message = ''max depth exceeded'', Line = 0, Column = 0,
                 Source = DeveloperError_RELATIONSHIP, Kind = DeveloperError_MAXIMUM_RECURSION,
                 Context = ''document:loop#viewer@user:amy#...''\<rparr>]"
    by (simp add: rejectedErrors_def rejectedRequest_def List.map_filter_simps o1 o2 o3 o4)
  have w: "wellFormedTuples exampleEnv loadedContents (Relationships rejectedRequest)
      = [exampleTuple ''first'' ''tom'', exampleTuple ''third'' ''fred'']"
    by (simp add: wellFormedTuples_def rejectedRequest_def o1 o2 o3 o4)
  from loadTuples_errors_batch [OF h1 h2 h3 h4 h5 h6 h7 h8, unfolded r w]
  show ?thesis
    by (simp add: loadedContents_def)
qed

text \<open>
  Claim C1 as stated fails: of three relationships with the second malformed, one
  developer error is returned, but \<open>loadTuples\<close> still writes the batch holding the first
  and the third relationship, and the transaction that holds it is committed.
\<close>

theorem buildSandbox_batch_write_counterexample:
  "loadTuples exampleEnv (Relationships batchRequest) loadedContents
     = ([\<lparr>Message = ''invalid ObjectAndRelation.ObjectId'', Line = 0, Column = 0,
           Source = DeveloperError_RELATIONSHIP, Kind = DeveloperError_PARSE_ERROR,
           Context = ''document:#viewer@user:sarah#...''\<rparr>],
        None,
        \<lparr>caveats = [], namespaces = [documentDefinition],
          relationshipBatches =
            [[Touch (exampleTuple ''first'' ''tom''), Touch (exampleTuple ''third'' ''fred'')]]\<rparr>,
        [])
   \<and> NewDevContext exampleEnv batchRequest
     = ((None,
         Some [\<lparr>Message = ''invalid ObjectAndRelation.ObjectId'', Line = 0, Column = 0,
                 Source = DeveloperError_RELATIONSHIP, Kind = DeveloperError_PARSE_ERROR,
                 Context = ''document:#viewer@user:sarah#...''\<rparr>],
         None),
        Some \<lparr>committed =
                \<lparr>caveats = [], namespaces = [documentDefinition],
                 relationshipBatches =
                   [[Touch (exampleTuple ''first'' ''tom''),
                     Touch (exampleTuple ''third'' ''fred'')]]\<rparr>,
              revision = 1\<rparr>,
        [DatastoreClosed])"
  by (simp add: example_defs sandbox_defs)

subsection \<open>Loading the schema\<close>

text \<open>
  Claim C2, as amended. When the schema compiles, some caveat or namespace definition
  fails its validation, and the storage accepts the writes, the commit and the close:
  \<open>NewDevContext\<close> returns a non-empty list of developer errors, one per invalid
  definition (caveats first, each group in order), and no sandbox; the transaction is not
  aborted, the definitions that validated are written and committed, no relationship is
  loaded, and the datastore is then closed.
\<close>

theorem loadCompiled_errors_commit:
  assumes created: "NewMemdbDatastoreErr env = None"
    and compiled: "CompileSchema env (Schema requestContext) = (compiled, None, None)"
    and wc: "\<And>defs c. WriteCaveatsErr env defs c = None"
    and wn: "\<And>d c. WriteNamespacesErr env d c = None"
    and commit: "\<And>c. CommitErr env c = None"
    and close: "DatastoreCloseErr env = None"
    and invalid: "\<not> list_all (\<lambda>d. caveatError env d = None) (CaveatDefinitions compiled)
                  \<or> \<not> list_all (\<lambda>d. namespaceError env compiled d = None) (ObjectDefinitions compiled)"
  shows "List.map_filter (caveatError env) (CaveatDefinitions compiled)
           @ List.map_filter (namespaceError env compiled) (ObjectDefinitions compiled) \<noteq> []
     \<and> NewDevContext env requestContext
           = ((None,
               Some (List.map_filter (caveatError env) (CaveatDefinitions compiled)
                     @ List.map_filter (namespaceError env compiled) (ObjectDefinitions compiled)),
               None),
              Some \<lparr>committed =
                      \<lparr>caveats = filter (\<lambda>d. caveatError env d = None) (CaveatDefinitions compiled),
                       namespaces = filter (\<lambda>d. namespaceError env compiled d = None)
                                      (ObjectDefinitions compiled),
                       relationshipBatches = []\<rparr>,
                    revision = 1\<rparr>,
              [DatastoreClosed])"
proof -
  let ?errs = "List.map_filter (caveatError env) (CaveatDefinitions compiled)
           @ List.map_filter (namespaceError env compiled) (ObjectDefinitions compiled)"
  let ?c = "\<lparr>caveats = filter (\<lambda>d. caveatError env d = None) (CaveatDefinitions compiled),
             namespaces = filter (\<lambda>d. namespaceError env compiled d = None)
                            (ObjectDefinitions compiled),
             relationshipBatches = []\<rparr>"
  have ne: "?errs \<noteq> []"
    using invalid by (simp add: map_filter_empty_iff)
  have lc: "loadCompiled env compiled emptyContents = (?errs, None, ?c)"
    by (simp add: loadCompiled_no_failure[OF wc wn] emptyContents_def)
  have cb: "loadCallback env compiled requestContext emptyContents = ((?errs, []), None, ?c)"
    using ne by (simp add: loadCallback_def lc)
  have tx: "ReadWriteTx env \<lparr>committed = emptyContents, revision = 0\<rparr>
        (loadCallback env compiled requestContext)
      = ((?errs, []), 1, None, \<lparr>committed = ?c, revision = 1\<rparr>)"
    by (simp add: ReadWriteTx_def cb commit)
  have nd: "newDevContextWithDatastore env requestContext \<lparr>committed = emptyContents, revision = 0\<rparr>
      = ((None, Some ?errs, None), \<lparr>committed = ?c, revision = 1\<rparr>, [])"
    using ne by (simp add: newDevContextWithDatastore_def compiled tx)
  have mk: "NewMemdbDatastore env = Inr \<lparr>committed = emptyContents, revision = 0\<rparr>"
    using created by (simp add: NewMemdbDatastore_def emptyContents_def)
  have "NewDevContext env requestContext
           = ((None, Some ?errs, None), Some \<lparr>committed = ?c, revision = 1\<rparr>, [DatastoreClosed])"
    using close by (simp add: NewDevContext_def mk nd DatastoreClose_def)
  with ne show ?thesis by simp
qed

theorem loadCompiled_errors_commit_witness:
  "fst (NewDevContext exampleEnv mixedRequest)
     = (None,
        Some [\<lparr>Message = ''could not lookup definition missing'', Line = 0, Column = 0,
                Source = DeveloperError_SCHEMA, Kind = DeveloperError_SCHEMA_ISSUE,
                Context = ''folder''\<rparr>],
        None)
   \<and> fst (snd (NewDevContext exampleEnv mixedRequest))
     = Some \<lparr>committed = loadedContents, revision = 1\<rparr>"
proof -
  let ?compiled = "\<lparr>ObjectDefinitions = [documentDefinition, brokenDefinition],
                    CaveatDefinitions = []\<rparr>"
  have h1: "NewMemdbDatastoreErr exampleEnv = None"
    by (simp add: exampleEnv_def)
  have h2: "CompileSchema exampleEnv (Schema mixedRequest) = (?compiled, None, None)"
    by (simp add: exampleEnv_def mixedRequest_def)
  have h3: "\<And>defs c. WriteCaveatsErr exampleEnv defs c = None"
    by (simp add: exampleEnv_def)
  have h4: "\<And>d c. WriteNamespacesErr exampleEnv d c = None"
    by (simp add: exampleEnv_def)
  have h5: "\<And>c. CommitErr exampleEnv c = None"
    by (simp add: exampleEnv_def)
  have h6: "DatastoreCloseErr exampleEnv = None"
    by (simp add: exampleEnv_def)
  have n1: "namespaceError exampleEnv ?compiled documentDefinition = None"
    by (simp add: namespaceError_def example_defs)
  have n2: "namespaceError exampleEnv ?compiled brokenDefinition
      = Some \<lparr>Message = ''could not lookup definition missing'', Line = 0, Column = 0,
                Source = DeveloperError_SCHEMA, Kind = DeveloperError_SCHEMA_ISSUE,
                Context = ''folder''\<rparr>"
    by (simp add: namespaceError_def example_defs schemaIssue_def AsErrorWithSource_def)
  have h7: "\<not> list_all (\<lambda>d. caveatError exampleEnv d = None) (CaveatDefinitions ?compiled)
      \<or> \<not> list_all (\<lambda>d. namespaceError exampleEnv ?compiled d = None)
            (ObjectDefinitions ?compiled)"
    by (simp add: n1 n2)
  from loadCompiled_errors_commit [OF h1 h2 h3 h4 h5 h6 h7]
  show ?thesis
    by (simp add: List.map_filter_simps n1 n2 loadedContents_def)
qed

text \<open>
  Claim C2 as stated fails: for a schema with one valid and one invalid namespace
  definition a developer error is returned, but \<open>loadCompiled\<close> has written the valid
  definition into the transaction, the callback returns nil, and the transaction is
  committed with the valid definition in it.
\<close>

theorem buildSandbox_schema_abort_counterexample:
  "loadCallback exampleEnv
     \<lparr>ObjectDefinitions = [documentDefinition, brokenDefinition], CaveatDefinitions = []\<rparr>
     mixedRequest emptyContents
     = (([\<lparr>Message = ''could not lookup definition missing'', Line = 0, Column = 0,
            Source = DeveloperError_SCHEMA, Kind = DeveloperError_SCHEMA_ISSUE,
            Context = ''folder''\<rparr>], []),
        None,
        \<lparr>caveats = [], namespaces = [documentDefinition], relationshipBatches = []\<rparr>)
   \<and> NewDevContext exampleEnv mixedRequest
     = ((None,
         Some [\<lparr>Message = ''could not lookup definition missing'', Line = 0, Column = 0,
                 Source = DeveloperError_SCHEMA, Kind = DeveloperError_SCHEMA_ISSUE,
                 Context = ''folder''\<rparr>],
         None),
        Some \<lparr>committed =
                \<lparr>caveats = [], namespaces = [documentDefinition], relationshipBatches = []\<rparr>,
              revision = 1\<rparr>,
        [DatastoreClosed])"
  by (simp add: example_defs sandbox_defs)

subsection \<open>Closing the datastore when construction fails\<close>

text \<open>
  Claim C9. Whenever \<open>NewDevContext\<close> has created its datastore and returns developer
  errors or an error, it returns no sandbox and \<open>Close\<close> has been called on the datastore:
  once, as the last effect before returning.
\<close>

theorem NewDevContext_closes_on_failure:
  assumes "NewDevContext env requestContext = ((dctx, devErrs, err), Some ds, effs)"
    and "devErrs \<noteq> None \<or> err \<noteq> None"
  shows "dctx = None
     \<and> (\<exists>loading. effs = loading @ [DatastoreClosed] \<and> DatastoreClosed \<notin> set loading)"
proof -
  from assms(1) obtain ds0 where ds0: "NewMemdbDatastore env = Inr ds0"
    by (auto simp: NewDevContext_def split: sum.splits)
  obtain dctx' devErrs' nerr ds' loading where
    n: "newDevContextWithDatastore env requestContext ds0 = ((dctx', devErrs', nerr), ds', loading)"
    by (metis prod.collapse)
  have l: "DatastoreClosed \<notin> set loading"
    using newDevContextWithDatastore_logs[of env requestContext ds0] n by simp
  have f: "(dctx' = None) = (nerr \<noteq> None \<or> devErrs' \<noteq> None)"
    using n by (rule newDevContextWithDatastore_failure)
  show ?thesis
  proof (cases "nerr \<noteq> None \<or> devErrs' \<noteq> None")
    case True
    with assms(1) ds0 n f have "dctx = None" and "effs = loading @ [DatastoreClosed]"
      by (auto simp: NewDevContext_def DatastoreClose_def split: option.splits)
    with l show ?thesis by simp
  next
    case False
    with assms ds0 n show ?thesis
      by (simp add: NewDevContext_def)
  qed
qed

theorem NewDevContext_closes_on_failure_witness:
  "fst (fst (NewDevContext exampleEnv staleRequest)) = None
   \<and> snd (snd (NewDevContext exampleEnv staleRequest)) = [DatastoreClosed]"
proof -
  have "Some [] \<noteq> (None :: DeveloperError list option)
      \<or> Some \<lparr>errorString = ''invalid zookie: revision has expired'', chain = [StatusError],
            withSource = None, grpcCode = Some OutOfRange\<rparr> \<noteq> None"
    by simp
  from NewDevContext_closes_on_failure [OF stale_eval this]
  show ?thesis
    by (simp add: stale_eval)
qed

text \<open>
  Claim C10. If construction fails (an error or developer errors came back from
  \<open>newDevContextWithDatastore\<close>) and closing the fresh datastore returns an error,
  \<open>NewDevContext\<close> returns that error alone: no sandbox, no developer errors, and not the
  error that made construction fail.
\<close>

theorem NewDevContext_close_error:
  assumes "NewMemdbDatastore env = Inr ds"
    and "newDevContextWithDatastore env requestContext ds = ((dctx, devErrs, nerr), ds', effs)"
    and "nerr \<noteq> None \<or> devErrs \<noteq> None"
    and "DatastoreCloseErr env = Some derr"
  shows "NewDevContext env requestContext
           = ((None, None, Some derr), Some ds', effs @ [DatastoreClosed])"
  using assms by (simp add: NewDevContext_def DatastoreClose_def)

theorem NewDevContext_close_error_witness:
  "NewDevContext failingCloseEnv staleRequest
     = ((None, None, Some closeError),
        Some \<lparr>committed = emptyContents, revision = 0\<rparr>, [DatastoreClosed])"
proof -
  have h1: "NewMemdbDatastore failingCloseEnv = Inr \<lparr>committed = emptyContents, revision = 0\<rparr>"
    by (simp add: NewMemdbDatastore_def failingCloseEnv_def exampleEnv_def emptyContents_def)
  have h3: "Some \<lparr>errorString = ''invalid zookie: revision has expired'', chain = [StatusError],
            withSource = None, grpcCode = Some OutOfRange\<rparr> \<noteq> None
      \<or> Some [] \<noteq> (None :: DeveloperError list option)"
    by simp
  have h4: "DatastoreCloseErr failingCloseEnv = Some closeError"
    by (simp add: failingCloseEnv_def)
  from NewDevContext_close_error [OF h1 stale_load h3 h4]
  show ?thesis by simp
qed

subsection \<open>Disposal\<close>

text \<open>
  Claim C8. \<open>Dispose\<close> on a sandbox that holds a dispatcher and a datastore closes the
  dispatcher first and the datastore second, both of them whatever either \<open>Close\<close>
  returns; an error returned by a \<open>Close\<close> is logged and nothing is returned to the
  caller. On a sandbox whose dispatcher or datastore is nil it does not fail: with a nil
  datastore it closes the dispatcher only, with a nil dispatcher it returns at once.
\<close>

theorem Dispose_releases:
  "(Dispatcher c \<noteq> None \<and> Datastore c \<noteq> None \<longrightarrow>
      Dispose env (Some c) =
        Inr ([DispatcherClosed]
             @ (if DispatcherCloseErr env \<noteq> None
                then [LogErr (DispatcherCloseErr env) ''error when disposing of dispatcher in devcontext'']
                else [])
             @ [DatastoreClosed]
             @ (if DatastoreCloseErr env \<noteq> None
                then [LogErr (DatastoreCloseErr env) ''error when disposing of datastore in devcontext'']
                else [])))
   \<and> (Dispatcher c \<noteq> None \<and> Datastore c = None \<longrightarrow>
      Dispose env (Some c) =
        Inr ([DispatcherClosed]
             @ (if DispatcherCloseErr env \<noteq> None
                then [LogErr (DispatcherCloseErr env) ''error when disposing of dispatcher in devcontext'']
                else [])))
   \<and> (Dispatcher c = None \<longrightarrow> Dispose env (Some c) = Inr [])
   \<and> (\<exists>effs. Dispose env (Some c) = Inr effs)"
  by (auto simp: Dispose_def DispatcherClose_def DatastoreClose_def Let_def)

theorem Dispose_releases_witness:
  "Dispose failingCloseEnv (Some exampleContext)
     = Inr [DispatcherClosed, DatastoreClosed,
            LogErr (Some closeError) ''error when disposing of datastore in devcontext'']
   \<and> Dispose exampleEnv (Some (exampleContext\<lparr>Datastore := None\<rparr>)) = Inr [DispatcherClosed]
   \<and> Dispose exampleEnv (Some (exampleContext\<lparr>Dispatcher := None\<rparr>)) = Inr []"
  using Dispose_releases [of exampleContext failingCloseEnv]
    Dispose_releases [of "exampleContext\<lparr>Datastore := None\<rparr>" exampleEnv]
    Dispose_releases [of "exampleContext\<lparr>Dispatcher := None\<rparr>" exampleEnv]
  by (simp add: exampleContext_def failingCloseEnv_def exampleEnv_def)

end
